theory Spec2Isabelle
  imports Complex_Main
begin

section \<open>Inputs: mesh, casing parameters, errors\<close>

text \<open>
  A face location is a row of \<^verbatim>\<open>mesh.gridFx\<close> / \<^verbatim>\<open>mesh.gridFz\<close>: three coordinates,
  read in the source as \<^verbatim>\<open>[:, 0]\<close>, \<^verbatim>\<open>[:, 1]\<close>, \<^verbatim>\<open>[:, 2]\<close>. Floating-point numbers are
  idealised as reals.
\<close>

type_synonym point = "real \<times> real \<times> real"

fun px :: "point \<Rightarrow> real" where
  "px (x, y, z) = x"

fun py :: "point \<Rightarrow> real" where
  "py (x, y, z) = y"

fun pz :: "point \<Rightarrow> real" where
  "pz (x, y, z) = z"

text \<open>
  The mesh is an object of the external discretisation library. The record holds what
  \<^verbatim>\<open>sources.py\<close> reads from it: the face grids, \<^verbatim>\<open>mesh.hx.min()\<close>, \<^verbatim>\<open>mesh.hy.min()\<close>,
  \<^verbatim>\<open>mesh.hz.min()\<close>, \<^verbatim>\<open>mesh.area\<close>, the flag \<^verbatim>\<open>isSymmetric\<close>, and the result of the library
  call \<^verbatim>\<open>closestPoints(mesh, p, 'Fz')\<close> (an array of face indices) as a function of \<open>p\<close>.
\<close>

record mesh =
  gridFx :: "point list"
  gridFy :: "point list"
  gridFz :: "point list"
  hx_min :: real
  hy_min :: real
  hz_min :: real
  area :: "real list"
  isSymmetric :: bool
  closestPoints_Fz :: "point \<Rightarrow> nat list"

definition vnF :: "mesh \<Rightarrow> nat \<times> nat \<times> nat" where
  "vnF m = (length (gridFx m), length (gridFy m), length (gridFz m))"

definition nF :: "mesh \<Rightarrow> nat" where
  "nF m = length (gridFx m) + length (gridFy m) + length (gridFz m)"

record casing =
  src_a :: point
  src_b :: point
  casing_a :: real
  freqs :: "real list"

datatype physics = FDEM | TDEM

datatype error =
    AssertionError string
  | NameError string
  | AttributeError string
  | IndexError
  | ValueError

datatype src_handle = RawVec_e real "real list" | RawVec_Grounded "real list"

section \<open>Instances and their lazily computed attributes\<close>

text \<open>
  An instance holds its inputs and the private attributes \<^verbatim>\<open>_src_a_closest\<close>, \<^verbatim>\<open>_s_e\<close>, ...
  that the properties fill on first access; \<open>None\<close> is an attribute that is not set yet
  (\<^verbatim>\<open>getattr(self, '_x', None) is None\<close>).
\<close>

record inst =
  cp :: casing
  mesh :: mesh
  physics :: physics
  cache_src_a_closest :: "point option"
  cache_src_b_closest :: "point option"
  cache_wire_in_borehole :: "bool list option"
  cache_surface_wire :: "bool list option"
  cache_surface_electrode :: "bool list option"
  cache_downhole_electrode :: "bool list option"
  cache_tophole_electrode :: "bool list option"
  cache_s_e :: "real list option"
  cache_srcList :: "src_handle list option"

definition new_inst :: "casing \<Rightarrow> mesh \<Rightarrow> physics \<Rightarrow> inst" where
  "new_inst c m ph =
     \<lparr> cp = c, mesh = m, physics = ph,
       cache_src_a_closest = None, cache_src_b_closest = None,
       cache_wire_in_borehole = None, cache_surface_wire = None,
       cache_surface_electrode = None, cache_downhole_electrode = None,
       cache_tophole_electrode = None, cache_s_e = None, cache_srcList = None \<rparr>"

text \<open>A method call: it returns a value or raises, and may fill attributes.\<close>

type_synonym 'a prog = "inst \<Rightarrow> (error + 'a) \<times> inst"

definition ret :: "'a \<Rightarrow> 'a prog" where
  "ret x = (\<lambda>s. (Inr x, s))"

definition and_then :: "'a prog \<Rightarrow> ('a \<Rightarrow> 'b prog) \<Rightarrow> 'b prog" where
  "and_then p f = (\<lambda>s. case p s of (Inl e, s') \<Rightarrow> (Inl e, s') | (Inr x, s') \<Rightarrow> f x s')"

text \<open>
  The pattern of every lazily computed property:
  \<^verbatim>\<open>if getattr(self, '_x', None) is None: ...; self._x = v\<close> then \<^verbatim>\<open>return self._x\<close>.
\<close>

definition memo :: "(inst \<Rightarrow> 'a option) \<Rightarrow> ('a option \<Rightarrow> inst \<Rightarrow> inst) \<Rightarrow> 'a prog \<Rightarrow> 'a prog" where
  "memo get put body =
     (\<lambda>s. case get s of
        Some v \<Rightarrow> (Inr v, s)
      | None \<Rightarrow> (case body s of
                  (Inl e, s') \<Rightarrow> (Inl e, s')
                | (Inr v, s') \<Rightarrow> (Inr v, put (Some v) s')))"

section \<open>Construction\<close>

definition BaseCasingSrc_init :: "casing \<Rightarrow> mesh \<Rightarrow> physics \<Rightarrow> error + inst" where
  "BaseCasingSrc_init c m ph =
     (if py (src_a c) = py (src_b c) then Inr (new_inst c m ph)
      else Inl (AssertionError ''non y-axis aligned sources have not been implemented''))"


text \<open>
  \<^verbatim>\<open>VerticalElectricDipole.__init__\<close> starts with
  \<^verbatim>\<open>assert all(cp.src_a[:2] == cp.src_b[:2]), ...\<close>, before \<^verbatim>\<open>super().__init__(**kwargs)\<close>.
  The name \<^verbatim>\<open>cp\<close> is neither a local of \<^verbatim>\<open>__init__(self, **kwargs)\<close> nor a name of the
  module, so evaluating the assertion's condition raises \<^verbatim>\<open>NameError\<close> for every input.
\<close>

definition VerticalElectricDipole_init :: "casing \<Rightarrow> mesh \<Rightarrow> physics \<Rightarrow> error + inst" where
  "VerticalElectricDipole_init c m ph = Inl (NameError ''cp'')"

definition DownHoleTerminatingSrc_init :: "casing \<Rightarrow> mesh \<Rightarrow> physics \<Rightarrow> error + inst" where
  "DownHoleTerminatingSrc_init c m ph = BaseCasingSrc_init c m ph"

definition DownHoleCasingSrc_init :: "casing \<Rightarrow> mesh \<Rightarrow> physics \<Rightarrow> error + inst" where
  "DownHoleCasingSrc_init c m ph = DownHoleTerminatingSrc_init c m ph"

definition TopCasingSrc_init :: "casing \<Rightarrow> mesh \<Rightarrow> physics \<Rightarrow> error + inst" where
  "TopCasingSrc_init c m ph = DownHoleTerminatingSrc_init c m ph"

section \<open>Closest faces\<close>

text \<open>
  \<^verbatim>\<open>mesh.gridFz[closestPoints(mesh, p, 'Fz'), :]\<close>, then
  \<^verbatim>\<open>assert(len(...) == 1), 'multiple source locs found'\<close>, then row \<open>0\<close>.
  An index outside the grid raises \<^verbatim>\<open>IndexError\<close>.
\<close>

definition closest_Fz :: "mesh \<Rightarrow> point \<Rightarrow> error + point" where
  "closest_Fz m p =
     (let inds = closestPoints_Fz m p in
      if list_ex (\<lambda>i. length (gridFz m) \<le> i) inds then Inl IndexError
      else (case map (\<lambda>i. gridFz m ! i) inds of
              [r] \<Rightarrow> Inr r
            | _ \<Rightarrow> Inl (AssertionError ''multiple source locs found'')))"

definition VED_src_a_closest :: "point prog" where
  "VED_src_a_closest =
     memo cache_src_a_closest (\<lambda>v. cache_src_a_closest_update (\<lambda>_. v))
       (\<lambda>s. (closest_Fz (mesh s) (src_a (cp s)), s))"

definition DHT_src_a_closest :: "point prog" where
  "DHT_src_a_closest =
     memo cache_src_a_closest (\<lambda>v. cache_src_a_closest_update (\<lambda>_. v))
       (\<lambda>s. (closest_Fz (mesh s) (src_a (cp s)), s))"

definition DHT_src_b_closest :: "point prog" where
  "DHT_src_b_closest =
     memo cache_src_b_closest (\<lambda>v. cache_src_b_closest_update (\<lambda>_. v))
       (\<lambda>s. (closest_Fz (mesh s) (src_b (cp s)), s))"

section \<open>Segment masks\<close>

text \<open>
  Each mask is a boolean array over the rows of one face grid. The x- and z-conditions
  are conjoined first; the y-condition is conjoined only when
  \<^verbatim>\<open>getattr(mesh, 'isSymmetric', False) is False\<close>.
\<close>

definition HED_surface_wire_mask :: "mesh \<Rightarrow> casing \<Rightarrow> bool list" where
  "HED_surface_wire_mask m c =
     map (\<lambda>f.
        let surface_wirex = (px f \<le> max (px (src_a c)) (px (src_b c)) \<and>
                             px f \<ge> min (px (src_a c)) (px (src_b c)));
            surface_wirez = (pz f > pz (src_b c) - hz_min m / 2 \<and>
                             pz f < pz (src_b c) + hz_min m / 2);
            surface_wirey = (py f > py (src_b c) - hy_min m / 2 \<and>
                             py f < py (src_b c) + hy_min m / 2)
        in if isSymmetric m then surface_wirex \<and> surface_wirez
           else (surface_wirex \<and> surface_wirez) \<and> surface_wirey)
       (gridFx m)"

definition HED_surface_wire :: "bool list prog" where
  "HED_surface_wire =
     memo cache_surface_wire (\<lambda>v. cache_surface_wire_update (\<lambda>_. v))
       (\<lambda>s. (Inr (HED_surface_wire_mask (mesh s) (cp s)), s))"

definition HED_surface_wire_direction :: "casing \<Rightarrow> real" where
  "HED_surface_wire_direction c = (if px (src_a c) < px (src_b c) then - 1 else 1)"

definition VED_wire_in_borehole_mask :: "mesh \<Rightarrow> casing \<Rightarrow> point \<Rightarrow> bool list" where
  "VED_wire_in_borehole_mask m c a_closest =
     map (\<lambda>f.
        let wire_in_boreholex = (px f < px a_closest + hx_min m / 2 \<and>
                                 px f > px a_closest - hx_min m / 2);
            wire_in_boreholez = (pz f \<ge> pz (src_a c) - (1 / 2) * hz_min m \<and>
                                 pz f < pz (src_b c) + (3 / 2) * hz_min m);
            wire_in_boreholey = (py f > py (src_a c) - hy_min m / 2 \<and>
                                 py f < py (src_a c) + hy_min m / 2)
        in if isSymmetric m then wire_in_boreholex \<and> wire_in_boreholez
           else (wire_in_boreholex \<and> wire_in_boreholez) \<and> wire_in_boreholey)
       (gridFz m)"

definition VED_wire_in_borehole :: "bool list prog" where
  "VED_wire_in_borehole =
     memo cache_wire_in_borehole (\<lambda>v. cache_wire_in_borehole_update (\<lambda>_. v))
       (and_then VED_src_a_closest
          (\<lambda>a_closest s. (Inr (VED_wire_in_borehole_mask (mesh s) (cp s) a_closest), s)))"

definition DHT_wire_in_borehole_mask :: "mesh \<Rightarrow> casing \<Rightarrow> point \<Rightarrow> bool list" where
  "DHT_wire_in_borehole_mask m c a_closest =
     map (\<lambda>f.
        let wire_in_boreholex = (px f < px a_closest + hx_min m / 2 \<and>
                                 px f > px a_closest - hx_min m / 2);
            wire_in_boreholez = (pz f \<ge> pz (src_a c) - (1 / 2) * hz_min m \<and>
                                 pz f < pz (src_b c) + (3 / 2) * hz_min m);
            wire_in_boreholey = (py f > py (src_a c) - hy_min m / 2 \<and>
                                 py f < py (src_a c) + hy_min m / 2)
        in if isSymmetric m then wire_in_boreholex \<and> wire_in_boreholez
           else (wire_in_boreholex \<and> wire_in_boreholez) \<and> wire_in_boreholey)
       (gridFz m)"

definition DHT_wire_in_borehole :: "bool list prog" where
  "DHT_wire_in_borehole =
     memo cache_wire_in_borehole (\<lambda>v. cache_wire_in_borehole_update (\<lambda>_. v))
       (and_then DHT_src_a_closest
          (\<lambda>a_closest s. (Inr (DHT_wire_in_borehole_mask (mesh s) (cp s) a_closest), s)))"

definition DHT_surface_wire_mask :: "mesh \<Rightarrow> casing \<Rightarrow> point \<Rightarrow> point \<Rightarrow> bool list" where
  "DHT_surface_wire_mask m c a_closest b_closest =
     map (\<lambda>f.
        let surface_wirex = (px f \<le> max (px a_closest) (px b_closest) \<and>
                             px f \<ge> min (px a_closest) (px b_closest));
            surface_wirez = (pz f > hz_min m \<and> pz f \<le> (7 / 4) * hz_min m);
            surface_wirey = (py f > py (src_b c) - hy_min m / 2 \<and>
                             py f < py (src_b c) + hy_min m / 2)
        in if isSymmetric m then surface_wirex \<and> surface_wirez
           else (surface_wirex \<and> surface_wirez) \<and> surface_wirey)
       (gridFx m)"

definition DHT_surface_wire :: "bool list prog" where
  "DHT_surface_wire =
     memo cache_surface_wire (\<lambda>v. cache_surface_wire_update (\<lambda>_. v))
       (and_then DHT_src_a_closest (\<lambda>a_closest.
        and_then DHT_src_b_closest (\<lambda>b_closest s.
          (Inr (DHT_surface_wire_mask (mesh s) (cp s) a_closest b_closest), s))))"

definition DHT_surface_electrode_mask :: "mesh \<Rightarrow> casing \<Rightarrow> point \<Rightarrow> bool list" where
  "DHT_surface_electrode_mask m c b_closest =
     map (\<lambda>f.
        let surface_electrodex = (px f > px b_closest - hx_min m / 2 \<and>
                                  px f < px b_closest + hx_min m / 2);
            surface_electrodez = (pz f \<ge> pz (src_b c) - hz_min m \<and>
                                  pz f < pz (src_b c) + (7 / 4) * hz_min m);
            surface_electrodey = (py f > py (src_b c) - hy_min m / 2 \<and>
                                  py f < py (src_b c) + hy_min m / 2)
        in if isSymmetric m then surface_electrodex \<and> surface_electrodez
           else (surface_electrodex \<and> surface_electrodez) \<and> surface_electrodey)
       (gridFz m)"

definition DHT_surface_electrode :: "bool list prog" where
  "DHT_surface_electrode =
     memo cache_surface_electrode (\<lambda>v. cache_surface_electrode_update (\<lambda>_. v))
       (and_then DHT_src_b_closest
          (\<lambda>b_closest s. (Inr (DHT_surface_electrode_mask (mesh s) (cp s) b_closest), s)))"

definition DHT_surface_wire_direction :: "casing \<Rightarrow> real" where
  "DHT_surface_wire_direction c = (if px (src_a c) < px (src_b c) then - 1 else 1)"

definition DHC_downhole_electrode_mask :: "mesh \<Rightarrow> casing \<Rightarrow> bool list" where
  "DHC_downhole_electrode_mask m c =
     map (\<lambda>f.
        let downhole_electrode_indx = (px f \<le> casing_a c);
            downhole_electrode_indz2 = (pz f \<le> pz (src_a c) \<and>
                                        pz f > pz (src_a c) - hz_min m);
            dowhhole_electrode_indy = (py f > py (src_a c) - hy_min m / 2 \<and>
                                       py f < py (src_a c) + hy_min m / 2)
        in if isSymmetric m then downhole_electrode_indx \<and> downhole_electrode_indz2
           else (downhole_electrode_indx \<and> downhole_electrode_indz2) \<and> dowhhole_electrode_indy)
       (gridFx m)"

definition DHC_downhole_electrode :: "bool list prog" where
  "DHC_downhole_electrode =
     memo cache_downhole_electrode (\<lambda>v. cache_downhole_electrode_update (\<lambda>_. v))
       (\<lambda>s. (Inr (DHC_downhole_electrode_mask (mesh s) (cp s)), s))"

definition TopCasing_tophole_electrode_mask :: "mesh \<Rightarrow> casing \<Rightarrow> bool list" where
  "TopCasing_tophole_electrode_mask m c =
     map (\<lambda>f.
        let tophole_electrodex = (px f \<le> casing_a c + hx_min m \<and> px f > casing_a c);
            tophole_electrodez = (pz f < pz (src_a c) + (3 / 2) * hz_min m \<and>
                                  pz f \<ge> pz (src_a c) - (1 / 2) * hz_min m);
            tophole_electrodey = (py f > py (src_a c) - hy_min m \<and>
                                  py f < py (src_a c) + hy_min m)
        in if isSymmetric m then tophole_electrodex \<and> tophole_electrodez
           else (tophole_electrodex \<and> tophole_electrodez) \<and> tophole_electrodey)
       (gridFz m)"

definition TopCasing_tophole_electrode :: "bool list prog" where
  "TopCasing_tophole_electrode =
     memo cache_tophole_electrode (\<lambda>v. cache_tophole_electrode_update (\<lambda>_. v))
       (\<lambda>s. (Inr (TopCasing_tophole_electrode_mask (mesh s) (cp s)), s))"

definition TopCasing_surface_wire_mask :: "mesh \<Rightarrow> casing \<Rightarrow> point \<Rightarrow> bool list" where
  "TopCasing_surface_wire_mask m c b_closest =
     map (\<lambda>f.
        let surface_wirex = (px f \<le> px b_closest \<and> px f > casing_a c + hx_min m / 2);
            surface_wirez = (pz f > pz (src_b c) + hz_min m \<and>
                             pz f \<le> pz (src_b c) + (7 / 4) * hz_min m);
            surface_wirey = (py f < py (src_b c) + hy_min m / 2 \<and>
                             py f > py (src_b c) - hy_min m / 2)
        in if isSymmetric m then surface_wirex \<and> surface_wirez
           else (surface_wirex \<and> surface_wirez) \<and> surface_wirey)
       (gridFx m)"

definition TopCasing_surface_wire :: "bool list prog" where
  "TopCasing_surface_wire =
     memo cache_surface_wire (\<lambda>v. cache_surface_wire_update (\<lambda>_. v))
       (and_then DHT_src_b_closest
          (\<lambda>b_closest s. (Inr (TopCasing_surface_wire_mask (mesh s) (cp s) b_closest), s)))"

section \<open>Assembling the current density\<close>

datatype axis = Fx | Fy | Fz

type_synonym arrays = "real list \<times> real list \<times> real list"

text \<open>
  \<^verbatim>\<open>arr[mask] = v\<close> with a boolean mask: the mask must have the length of the array
  (NumPy raises \<^verbatim>\<open>IndexError\<close> otherwise); the selected entries become \<open>v\<close>.
\<close>

definition assign_masked :: "real list \<Rightarrow> bool list \<Rightarrow> real \<Rightarrow> error + real list" where
  "assign_masked arr msk v =
     (if length msk = length arr then Inr (map2 (\<lambda>b x. if b then v else x) msk arr)
      else Inl IndexError)"

fun write_face :: "arrays \<Rightarrow> axis \<Rightarrow> bool list \<Rightarrow> real \<Rightarrow> error + arrays" where
  "write_face (s_x, s_y, s_z) Fx msk v =
     (case assign_masked s_x msk v of Inl e \<Rightarrow> Inl e | Inr s_x' \<Rightarrow> Inr (s_x', s_y, s_z))"
| "write_face (s_x, s_y, s_z) Fy msk v =
     (case assign_masked s_y msk v of Inl e \<Rightarrow> Inl e | Inr s_y' \<Rightarrow> Inr (s_x, s_y', s_z))"
| "write_face (s_x, s_y, s_z) Fz msk v =
     (case assign_masked s_z msk v of Inl e \<Rightarrow> Inl e | Inr s_z' \<Rightarrow> Inr (s_x, s_y, s_z'))"

text \<open>
  A segment of a source is one statement \<^verbatim>\<open>s_x[self.<mask property>] = <value>\<close> (or
  \<^verbatim>\<open>s_z[...]\<close>) of its \<^verbatim>\<open>s_e\<close>: the face array written, the property giving the mask,
  the value. The statements run in order; each evaluates its mask property, then writes.
\<close>

type_synonym segment = "axis \<times> bool list prog \<times> real"

fun run_segments :: "arrays \<Rightarrow> segment list \<Rightarrow> inst \<Rightarrow> (error + arrays) \<times> inst" where
  "run_segments arrs [] s = (Inr arrs, s)"
| "run_segments arrs ((ax, mask_of, v) # rest) s =
     (case mask_of s of
        (Inl e, s') \<Rightarrow> (Inl e, s')
      | (Inr msk, s') \<Rightarrow>
          (case write_face arrs ax msk v of
             Inl e \<Rightarrow> (Inl e, s')
           | Inr arrs' \<Rightarrow> run_segments arrs' rest s'))"

text \<open>
  \<^verbatim>\<open>s_e / mesh.area\<close> on one-dimensional arrays: element-wise when the lengths agree,
  broadcast when one of them has length one, \<^verbatim>\<open>ValueError\<close> otherwise.
\<close>

definition np_divide :: "real list \<Rightarrow> real list \<Rightarrow> error + real list" where
  "np_divide xs ys =
     (if length xs = length ys then Inr (map2 (\<lambda>x y. x / y) xs ys)
      else if length ys = 1 then Inr (map (\<lambda>x. x / ys ! 0) xs)
      else if length xs = 1 then Inr (map (\<lambda>y. xs ! 0 / y) ys)
      else Inl ValueError)"

text \<open>
  The body under the guard of every \<^verbatim>\<open>s_e\<close>: three zero arrays of the sizes \<^verbatim>\<open>mesh.vnF\<close>,
  the segments, \<^verbatim>\<open>np.hstack([s_x, s_y, s_z])\<close>, the division by \<^verbatim>\<open>mesh.area\<close>, and the
  result stored in \<^verbatim>\<open>self._s_e\<close>.
\<close>

definition compute_s_e :: "segment list \<Rightarrow> unit prog" where
  "compute_s_e segs =
     (\<lambda>s. case vnF (mesh s) of (n_x, n_y, n_z) \<Rightarrow>
        (case run_segments (replicate n_x 0, replicate n_y 0, replicate n_z 0) segs s of
           (Inl e, s') \<Rightarrow> (Inl e, s')
         | (Inr (s_x, s_y, s_z), s') \<Rightarrow>
             (case np_divide (s_x @ s_y @ s_z) (area (mesh s')) of
                Inl e \<Rightarrow> (Inl e, s')
              | Inr v \<Rightarrow> (Inr (), s'\<lparr>cache_s_e := Some v\<rparr>))))"

text \<open>\<^verbatim>\<open>return self._s_e\<close>: the attribute must exist.\<close>

definition return_s_e :: "real list prog" where
  "return_s_e =
     (\<lambda>s. case cache_s_e s of
             Some v \<Rightarrow> (Inr v, s)
           | None \<Rightarrow> (Inl (AttributeError ''_s_e''), s))"

definition HED_segments :: "casing \<Rightarrow> segment list" where
  "HED_segments c = [(Fx, HED_surface_wire, HED_surface_wire_direction c)]"

definition VED_segments :: "casing \<Rightarrow> segment list" where
  "VED_segments c = [(Fz, VED_wire_in_borehole, - 1)]"

definition DHT_segments :: "casing \<Rightarrow> segment list" where
  "DHT_segments c =
     [(Fz, DHT_wire_in_borehole, - 1),
      (Fx, DHT_surface_wire, DHT_surface_wire_direction c),
      (Fz, DHT_surface_electrode, 1)]"

definition DHC_segments :: "casing \<Rightarrow> segment list" where
  "DHC_segments c =
     [(Fz, DHT_wire_in_borehole, - 1),
      (Fx, DHC_downhole_electrode, 1),
      (Fx, DHT_surface_wire, - 1),
      (Fz, DHT_surface_electrode, 1)]"

definition TopCasing_segments :: "casing \<Rightarrow> segment list" where
  "TopCasing_segments c =
     [(Fz, TopCasing_tophole_electrode, - 1),
      (Fx, TopCasing_surface_wire, - 1),
      (Fz, DHT_surface_electrode, 1)]"

text \<open>
  The guard of \<^verbatim>\<open>HorizontalElectricDipole.s_e\<close> and \<^verbatim>\<open>VerticalElectricDipole.s_e\<close> is
  \<^verbatim>\<open>getattr(self, '_s_e', None) is None\<close>; the guard of the other three is
  \<^verbatim>\<open>getattr(self, '_srcList', None) is None\<close>.
\<close>

definition HED_s_e :: "real list prog" where
  "HED_s_e =
     (\<lambda>s. if cache_s_e s = None
           then and_then (compute_s_e (HED_segments (cp s))) (\<lambda>_. return_s_e) s
           else return_s_e s)"

definition VED_s_e :: "real list prog" where
  "VED_s_e =
     (\<lambda>s. if cache_s_e s = None
           then and_then (compute_s_e (VED_segments (cp s))) (\<lambda>_. return_s_e) s
           else return_s_e s)"

definition DHT_s_e :: "real list prog" where
  "DHT_s_e =
     (\<lambda>s. if cache_srcList s = None
           then and_then (compute_s_e (DHT_segments (cp s))) (\<lambda>_. return_s_e) s
           else return_s_e s)"

definition DHC_s_e :: "real list prog" where
  "DHC_s_e =
     (\<lambda>s. if cache_srcList s = None
           then and_then (compute_s_e (DHC_segments (cp s))) (\<lambda>_. return_s_e) s
           else return_s_e s)"

definition TopCasing_s_e :: "real list prog" where
  "TopCasing_s_e =
     (\<lambda>s. if cache_srcList s = None
           then and_then (compute_s_e (TopCasing_segments (cp s))) (\<lambda>_. return_s_e) s
           else return_s_e s)"

text \<open>The five source classes, and the method each class resolves \<^verbatim>\<open>self.s_e\<close> to.\<close>

datatype variant =
    HorizontalElectricDipole
  | VerticalElectricDipole
  | DownHoleTerminatingSrc
  | DownHoleCasingSrc
  | TopCasingSrc

fun segments_of :: "variant \<Rightarrow> casing \<Rightarrow> segment list" where
  "segments_of HorizontalElectricDipole c = HED_segments c"
| "segments_of VerticalElectricDipole c = VED_segments c"
| "segments_of DownHoleTerminatingSrc c = DHT_segments c"
| "segments_of DownHoleCasingSrc c = DHC_segments c"
| "segments_of TopCasingSrc c = TopCasing_segments c"

fun s_e :: "variant \<Rightarrow> real list prog" where
  "s_e HorizontalElectricDipole = HED_s_e"
| "s_e VerticalElectricDipole = VED_s_e"
| "s_e DownHoleTerminatingSrc = DHT_s_e"
| "s_e DownHoleCasingSrc = DHC_s_e"
| "s_e TopCasingSrc = TopCasing_s_e"

text \<open>
  \<^verbatim>\<open>BaseCasingSrc.srcList\<close>: one \<^verbatim>\<open>RawVec_e\<close> per frequency (each evaluates \<^verbatim>\<open>self.s_e\<close>) for
  FDEM, one \<^verbatim>\<open>RawVec_Grounded\<close> for TDEM, stored in \<^verbatim>\<open>self._srcList\<close>.
\<close>

fun srcList_FDEM :: "real list prog \<Rightarrow> real list \<Rightarrow> src_handle list prog" where
  "srcList_FDEM self_s_e [] s = (Inr [], s)"
| "srcList_FDEM self_s_e (f # fs) s =
     (case self_s_e s of
        (Inl e, s') \<Rightarrow> (Inl e, s')
      | (Inr v, s') \<Rightarrow>
          (case srcList_FDEM self_s_e fs s' of
             (Inl e, s'') \<Rightarrow> (Inl e, s'')
           | (Inr hs, s'') \<Rightarrow> (Inr (RawVec_e f v # hs), s'')))"

definition srcList :: "variant \<Rightarrow> src_handle list prog" where
  "srcList k =
     memo cache_srcList (\<lambda>v. cache_srcList_update (\<lambda>_. v))
       (\<lambda>s. case physics s of
               FDEM \<Rightarrow> srcList_FDEM (s_e k) (freqs (cp s)) s
             | TDEM \<Rightarrow> and_then (s_e k) (\<lambda>v. ret [RawVec_Grounded v]) s)"

section \<open>Wire checks\<close>

text \<open>\<^verbatim>\<open>grid[mask, :]\<close>: the rows a boolean mask selects.\<close>

definition select_rows :: "point list \<Rightarrow> bool list \<Rightarrow> error + point list" where
  "select_rows grid msk =
     (if length msk = length grid then Inr (map snd (filter fst (zip msk grid)))
      else Inl IndexError)"

text \<open>\<^verbatim>\<open>len(np.unique(xs))\<close>: the number of distinct values.\<close>

definition n_unique :: "real list \<Rightarrow> nat" where
  "n_unique xs = length (remdups xs)"

text \<open>
  \<^verbatim>\<open>DownHoleCasingSrc._check_wire_more\<close>, a validator hook of the \<^verbatim>\<open>properties\<close> library:
  it runs when the instance is validated. No \<^verbatim>\<open>s_e\<close> calls it.
\<close>

definition DHC_check_wire_more :: "bool prog" where
  "DHC_check_wire_more =
     and_then DHC_downhole_electrode (\<lambda>msk s.
       case select_rows (gridFx (mesh s)) msk of
         Inl e \<Rightarrow> (Inl e, s)
       | Inr downhole_electrode \<Rightarrow>
           if n_unique (map py downhole_electrode) \<noteq> 1
           then (Inl (AssertionError ''the downhole electrode has more than one y-location''), s)
           else if n_unique (map pz downhole_electrode) \<noteq> 1
           then (Inl (AssertionError ''the downhole electrode has more than one z-location''), s)
           else (Inr True, s))"

section \<open>Notions used to state the properties\<close>

text \<open>The sum of the values the segments of a source write, one per segment.\<close>

definition unit_current_sum :: "variant \<Rightarrow> casing \<Rightarrow> real" where
  "unit_current_sum k c = sum_list (map (\<lambda>(ax, mask_of, v). v) (segments_of k c))"

text \<open>
  A resolved segment is a segment with its mask evaluated. \<open>resolve_segments\<close> evaluates
  the mask properties of a segment list in order; \<open>write_all\<close> performs the writes of
  resolved segments; \<open>last_write\<close> is the value of the last segment of a face array whose
  mask selects an entry; \<open>locate\<close> splits an index of the stacked vector
  \<^verbatim>\<open>np.hstack([s_x, s_y, s_z])\<close> into the face array and the index in it.
\<close>

type_synonym resolved = "axis \<times> bool list \<times> real"

fun resolve_segments :: "segment list \<Rightarrow> inst \<Rightarrow> (error + resolved list) \<times> inst" where
  "resolve_segments [] s = (Inr [], s)"
| "resolve_segments ((ax, mask_of, v) # rest) s =
     (case mask_of s of
        (Inl e, s') \<Rightarrow> (Inl e, s')
      | (Inr msk, s') \<Rightarrow>
          (case resolve_segments rest s' of
             (Inl e, s'') \<Rightarrow> (Inl e, s'')
           | (Inr rs, s'') \<Rightarrow> (Inr ((ax, msk, v) # rs), s'')))"

fun write_all :: "arrays \<Rightarrow> resolved list \<Rightarrow> error + arrays" where
  "write_all arrs [] = Inr arrs"
| "write_all arrs ((ax, msk, v) # rest) =
     (case write_face arrs ax msk v of Inl e \<Rightarrow> Inl e | Inr arrs' \<Rightarrow> write_all arrs' rest)"

fun last_write :: "resolved list \<Rightarrow> axis \<Rightarrow> nat \<Rightarrow> real option" where
  "last_write [] ax j = None"
| "last_write ((a, msk, v) # rest) ax j =
     (case last_write rest ax j of
        Some w \<Rightarrow> Some w
      | None \<Rightarrow> (if a = ax \<and> j < length msk \<and> msk ! j then Some v else None))"

fun face_of :: "arrays \<Rightarrow> axis \<Rightarrow> real list" where
  "face_of (s_x, s_y, s_z) Fx = s_x"
| "face_of (s_x, s_y, s_z) Fy = s_y"
| "face_of (s_x, s_y, s_z) Fz = s_z"

definition locate :: "mesh \<Rightarrow> nat \<Rightarrow> axis \<times> nat" where
  "locate m i =
     (if i < length (gridFx m) then (Fx, i)
      else if i < length (gridFx m) + length (gridFy m) then (Fy, i - length (gridFx m))
      else (Fz, i - length (gridFx m) - length (gridFy m)))"

text \<open>
  The closest-face lookups the segments of a source need: none for the horizontal
  dipole, \<open>src_a\<close> for the vertical dipole, \<open>src_b\<close> for \<^verbatim>\<open>TopCasingSrc\<close>, both for the
  two downhole sources.
\<close>

definition resolves :: "mesh \<Rightarrow> point \<Rightarrow> bool" where
  "resolves m p = (case closest_Fz m p of Inl e \<Rightarrow> False | Inr f \<Rightarrow> True)"

fun lookups_resolve :: "variant \<Rightarrow> mesh \<Rightarrow> casing \<Rightarrow> bool" where
  "lookups_resolve HorizontalElectricDipole m c = True"
| "lookups_resolve VerticalElectricDipole m c = resolves m (src_a c)"
| "lookups_resolve DownHoleTerminatingSrc m c = (resolves m (src_a c) \<and> resolves m (src_b c))"
| "lookups_resolve DownHoleCasingSrc m c = (resolves m (src_a c) \<and> resolves m (src_b c))"
| "lookups_resolve TopCasingSrc m c = resolves m (src_b c)"

section \<open>Example inputs\<close>

text \<open>
  Modelled from the spec: \<^verbatim>\<open>closestPoints\<close> belongs to the external mesh library and is
  not part of the sources; the spec describes it as a nearest-neighbour search over the
  face grid of an axis. \<open>nearest_face\<close> is that search (the first face of least squared
  distance, as one index), used for the example meshes below only.
\<close>

definition dist2 :: "point \<Rightarrow> point \<Rightarrow> real" where
  "dist2 p q = (px p - px q)\<^sup>2 + (py p - py q)\<^sup>2 + (pz p - pz q)\<^sup>2"

fun argmin_from :: "real list \<Rightarrow> nat \<Rightarrow> nat \<Rightarrow> real \<Rightarrow> nat" where
  "argmin_from [] i best d_best = best"
| "argmin_from (d # ds) i best d_best =
     (if d < d_best then argmin_from ds (Suc i) i d else argmin_from ds (Suc i) best d_best)"

definition nearest_face :: "point list \<Rightarrow> point \<Rightarrow> nat list" where
  "nearest_face grid p =
     (case map (dist2 p) grid of [] \<Rightarrow> [] | d # ds \<Rightarrow> [argmin_from ds 1 0 d])"

definition box_gridFz :: "point list" where
  "box_gridFz = [(0, 0, - 10), (0, 0, - 9), (0, 0, 0), (5, 0, 0), (5, 0, 1)]"

definition box_mesh :: mesh where
  "box_mesh =
     \<lparr> gridFx = [(1 / 2, - (1 / 4), - 10), (1 / 2, 1 / 4, - 10), (5 / 2, 0, 3 / 2), (9 / 2, 0, 3 / 2)],
       gridFy = [],
       gridFz = box_gridFz,
       hx_min = 1, hy_min = 1, hz_min = 1,
       area = [1, 1, 2, 2, 3, 3, 3, 4, 4],
       isSymmetric = False,
       closestPoints_Fz = nearest_face box_gridFz \<rparr>"

definition box_cp :: casing where
  "box_cp = \<lparr> src_a = (0, 0, - 10), src_b = (5, 0, 0), casing_a = 1, freqs = [1] \<rparr>"

definition cyl_gridFz :: "point list" where
  "cyl_gridFz = [(1 / 10, 0, 0), (3 / 10, 0, 0), (1 / 2, 0, 0), (7 / 10, 0, 0), (9 / 10, 0, 0)]"

definition cyl_mesh :: mesh where
  "cyl_mesh =
     \<lparr> gridFx = [(1 / 5, 0, 3 / 2), (2 / 5, 0, 3 / 2), (3 / 5, 0, 3 / 2), (4 / 5, 0, 3 / 2)],
       gridFy = [],
       gridFz = cyl_gridFz,
       hx_min = 1 / 5, hy_min = 2 * pi, hz_min = 1,
       area = [1, 2, 3, 4, 1, 3, 5, 7, 9],
       isSymmetric = True,
       closestPoints_Fz = nearest_face cyl_gridFz \<rparr>"

definition cyl_cp :: casing where
  "cyl_cp = \<lparr> src_a = (1 / 2, 0, 0), src_b = (9 / 10, 0, 0), casing_a = 1 / 2, freqs = [] \<rparr>"

definition line_mesh :: mesh where
  "line_mesh =
     \<lparr> gridFx = [(0, 0, 0), (5, 0, 0), (10, 0, 0)],
       gridFy = [],
       gridFz = [(5 / 2, 0, 0)],
       hx_min = 5, hy_min = 1, hz_min = 1,
       area = [1, 1, 1, 25],
       isSymmetric = False,
       closestPoints_Fz = nearest_face [(5 / 2, 0, 0)] \<rparr>"

definition line_cp :: casing where
  "line_cp = \<lparr> src_a = (0, 0, 0), src_b = (10, 0, 0), casing_a = 1, freqs = [] \<rparr>"

definition vertical_cp :: casing where
  "vertical_cp = \<lparr> src_a = (0, 0, 0), src_b = (0, 0, - 10), casing_a = 1, freqs = [] \<rparr>"

definition stack_gridFz :: "point list" where
  "stack_gridFz = [(0, 0, - 10), (0, 0, - 1), (0, 0, 0), (0, 0, 1), (5, 0, 0)]"

definition stack_mesh :: mesh where
  "stack_mesh =
     \<lparr> gridFx = [(0, 0, 3 / 2), (1, 0, 3 / 2)],
       gridFy = [],
       gridFz = stack_gridFz,
       hx_min = 1, hy_min = 1, hz_min = 1,
       area = [2, 2, 4, 4, 4, 4, 4],
       isSymmetric = False,
       closestPoints_Fz = nearest_face stack_gridFz \<rparr>"

definition stack_cp :: casing where
  "stack_cp = \<lparr> src_a = (0, 0, - 10), src_b = (0, 0, 0), casing_a = 1, freqs = [] \<rparr>"

definition point_cp :: casing where
  "point_cp = \<lparr> src_a = (0, 0, 0), src_b = (0, 0, 0), casing_a = 1, freqs = [] \<rparr>"

section \<open>Basic facts\<close>

text \<open>
  Collections of the defining equations, for evaluating the model on an instance.
\<close>

lemmas prog_defs = and_then_def memo_def ret_def return_s_e_def compute_s_e_def vnF_def
  assign_masked_def new_inst_def np_divide_def

lemmas prop_defs = VED_src_a_closest_def DHT_src_a_closest_def DHT_src_b_closest_def
  HED_surface_wire_def VED_wire_in_borehole_def DHT_wire_in_borehole_def DHT_surface_wire_def
  DHT_surface_electrode_def DHC_downhole_electrode_def TopCasing_tophole_electrode_def
  TopCasing_surface_wire_def

lemmas seg_defs = HED_segments_def VED_segments_def DHT_segments_def DHC_segments_def
  TopCasing_segments_def

lemmas s_e_defs = HED_s_e_def VED_s_e_def DHT_s_e_def DHC_s_e_def TopCasing_s_e_def

lemmas mask_defs = HED_surface_wire_mask_def VED_wire_in_borehole_mask_def
      DHT_wire_in_borehole_mask_def DHT_surface_wire_mask_def DHT_surface_electrode_mask_def
      DHC_downhole_electrode_mask_def TopCasing_tophole_electrode_mask_def
      TopCasing_surface_wire_mask_def

lemmas ex_defs = box_mesh_def box_gridFz_def box_cp_def cyl_mesh_def cyl_gridFz_def cyl_cp_def
  line_mesh_def line_cp_def vertical_cp_def stack_mesh_def stack_gridFz_def
  stack_cp_def point_cp_def nearest_face_def dist2_def closest_Fz_def

lemmas fresh_defs = prog_defs prop_defs seg_defs s_e_defs

lemma mask_lengths [simp]:
  "length (HED_surface_wire_mask m c) = length (gridFx m)"
  "length (VED_wire_in_borehole_mask m c a) = length (gridFz m)"
  "length (DHT_wire_in_borehole_mask m c a) = length (gridFz m)"
  "length (DHT_surface_wire_mask m c a b) = length (gridFx m)"
  "length (DHT_surface_electrode_mask m c b) = length (gridFz m)"
  "length (DHC_downhole_electrode_mask m c) = length (gridFx m)"
  "length (TopCasing_tophole_electrode_mask m c) = length (gridFz m)"
  "length (TopCasing_surface_wire_mask m c b) = length (gridFx m)"
  by (simp_all add: mask_defs)

text \<open>
  Running the segments of an \<^verbatim>\<open>s_e\<close> is resolving their masks, then writing.
\<close>

lemma run_segments_resolve:
  "run_segments arrs segs s = (Inr arrs', s') \<Longrightarrow>
   \<exists>rs. resolve_segments segs s = (Inr rs, s') \<and> write_all arrs rs = Inr arrs'"
proof (induction segs arbitrary: arrs s)
  case Nil
  then show ?case by simp
next
  case (Cons seg segs)
  obtain ax mask_of v where seg: "seg = (ax, mask_of, v)" by (cases seg)
  from Cons.prems seg obtain msk s1 arrs1 where
    m: "mask_of s = (Inr msk, s1)" and w: "write_face arrs ax msk v = Inr arrs1"
    and r: "run_segments arrs1 segs s1 = (Inr arrs', s')"
    by (auto split: prod.splits sum.splits)
  from Cons.IH [OF r] obtain rs where
    "resolve_segments segs s1 = (Inr rs, s')" "write_all arrs1 rs = Inr arrs'" by blast
  with m w seg show ?case by simp
qed

lemma write_face_nth:
  assumes "write_face arrs a msk v = Inr arrs1"
  shows "length (face_of arrs1 ax) = length (face_of arrs ax) \<and>
         (\<forall>j<length (face_of arrs ax).
         face_of arrs1 ax ! j = (if a = ax \<and> j < length msk \<and> msk ! j then v else face_of arrs ax ! j))"
  using assms
  by (cases arrs; cases a; cases ax; auto simp: assign_masked_def split: if_splits sum.splits)

lemma write_all_nth:
  "write_all arrs rs = Inr arrs' \<Longrightarrow>
   length (face_of arrs' ax) = length (face_of arrs ax) \<and>
   (\<forall>j<length (face_of arrs ax).
      face_of arrs' ax ! j = (case last_write rs ax j of None \<Rightarrow> face_of arrs ax ! j | Some w \<Rightarrow> w))"
proof (induction rs arbitrary: arrs)
  case Nil
  then show ?case by simp
next
  case (Cons r rs)
  obtain a msk v where r: "r = (a, msk, v)" by (cases r)
  from Cons.prems r obtain arrs1 where
    w: "write_face arrs a msk v = Inr arrs1" and rest: "write_all arrs1 rs = Inr arrs'"
    by (auto split: sum.splits)
  note ih = Cons.IH [OF rest]
  note wf = write_face_nth [OF w, where ax = ax]
  show ?case
    using ih wf r by (auto split: option.splits)
qed

lemma s_e_fresh_run:
  assumes "s_e k (new_inst c m ph) = (Inr vec, s')"
  shows "\<exists>s_x s_y s_z s2.
           run_segments (replicate (length (gridFx m)) 0, replicate (length (gridFy m)) 0,
                         replicate (length (gridFz m)) 0) (segments_of k c) (new_inst c m ph)
             = (Inr (s_x, s_y, s_z), s2) \<and>
           np_divide (s_x @ s_y @ s_z) (area (mesh s2)) = Inr vec"
  using assms
  by (cases k)
     (auto simp: s_e_defs and_then_def compute_s_e_def vnF_def new_inst_def return_s_e_def
           split: prod.splits sum.splits option.splits)

text \<open>
  No property changes the mesh of the instance.
\<close>

lemma memo_mesh:
  assumes "\<And>s r s'. body s = (r, s') \<Longrightarrow> mesh s' = mesh s"
    and "\<And>v s. mesh (put v s) = mesh s"
    and "memo get put body s = (r, s')"
  shows "mesh s' = mesh s"
  using assms(3) assms(1) [of s] assms(2)
  by (auto simp: memo_def split: option.splits prod.splits sum.splits)

lemma and_then_mesh:
  assumes "\<And>s r s'. p s = (r, s') \<Longrightarrow> mesh s' = mesh s"
    and "\<And>x s r s'. f x s = (r, s') \<Longrightarrow> mesh s' = mesh s"
    and "and_then p f s = (r, s')"
  shows "mesh s' = mesh s"
proof (cases "p s")
  case (Pair r1 s1)
  then have m1: "mesh s1 = mesh s" using assms(1) by blast
  show ?thesis
  proof (cases r1)
    case (Inl e)
    with Pair assms(3) m1 show ?thesis by (simp add: and_then_def)
  next
    case (Inr x)
    with Pair assms(3) have "f x s1 = (r, s')" by (simp add: and_then_def)
    then have "mesh s' = mesh s1" using assms(2) by blast
    with m1 show ?thesis by simp
  qed
qed

lemma closest_mesh:
  "VED_src_a_closest s = (r, s') \<Longrightarrow> mesh s' = mesh s"
  "DHT_src_a_closest s = (r, s') \<Longrightarrow> mesh s' = mesh s"
  "DHT_src_b_closest s = (r, s') \<Longrightarrow> mesh s' = mesh s"
  unfolding VED_src_a_closest_def DHT_src_a_closest_def DHT_src_b_closest_def
  by (erule memo_mesh [rotated 2]; auto)+

lemma mask_prop_mesh:
  "HED_surface_wire s = (r, s') \<Longrightarrow> mesh s' = mesh s"
  "VED_wire_in_borehole s = (r, s') \<Longrightarrow> mesh s' = mesh s"
  "DHT_wire_in_borehole s = (r, s') \<Longrightarrow> mesh s' = mesh s"
  "DHT_surface_wire s = (r, s') \<Longrightarrow> mesh s' = mesh s"
  "DHT_surface_electrode s = (r, s') \<Longrightarrow> mesh s' = mesh s"
  "DHC_downhole_electrode s = (r, s') \<Longrightarrow> mesh s' = mesh s"
  "TopCasing_tophole_electrode s = (r, s') \<Longrightarrow> mesh s' = mesh s"
  "TopCasing_surface_wire s = (r, s') \<Longrightarrow> mesh s' = mesh s"
  unfolding HED_surface_wire_def VED_wire_in_borehole_def DHT_wire_in_borehole_def
    DHT_surface_wire_def DHT_surface_electrode_def DHC_downhole_electrode_def
    TopCasing_tophole_electrode_def TopCasing_surface_wire_def
  by (erule memo_mesh [rotated 2];
      (erule and_then_mesh [rotated 2])?;
      (erule and_then_mesh [rotated 2])?;
      auto dest: closest_mesh)+

lemma run_segments_mesh:
  assumes "\<And>ax p v s r s'. (ax, p, v) \<in> set segs \<Longrightarrow> p s = (r, s') \<Longrightarrow> mesh s' = mesh s"
    and "run_segments arrs segs s = (r, s')"
  shows "mesh s' = mesh s"
  using assms
proof (induction segs arbitrary: arrs s)
  case Nil
  then show ?case by simp
next
  case (Cons seg segs)
  obtain ax mask_of v where seg: "seg = (ax, mask_of, v)" by (cases seg)
  obtain r1 s1 where m: "mask_of s = (r1, s1)" by (cases "mask_of s")
  have m1: "mesh s1 = mesh s" using Cons.prems(1) [of ax mask_of v s r1 s1] seg m by simp
  show ?case
  proof (cases r1)
    case (Inl e)
    with Cons.prems(2) seg m m1 show ?thesis by simp
  next
    case (Inr msk)
    show ?thesis
    proof (cases "write_face arrs ax msk v")
      case (Inl e)
      with Cons.prems(2) seg m m1 Inr show ?thesis by simp
    next
      case w: (Inr arrs1)
      with Cons.prems(2) seg m Inr have "run_segments arrs1 segs s1 = (r, s')" by simp
      then have "mesh s' = mesh s1"
        using Cons.IH [of arrs1 s1] Cons.prems(1) by (meson list.set_intros(2))
      with m1 show ?thesis by simp
    qed
  qed
qed

lemma variant_run_mesh:
  assumes "run_segments arrs (segments_of k c) s = (r, s')"
  shows "mesh s' = mesh s"
proof (rule run_segments_mesh [OF _ assms])
  fix ax p v s r s'
  assume "(ax, p, v) \<in> set (segments_of k c)" and "p s = (r, s')"
  then show "mesh s' = mesh s"
    by (cases k) (auto simp: seg_defs dest: mask_prop_mesh)
qed

lemma np_divide_same_length:
  "length xs = length ys \<Longrightarrow> np_divide xs ys = Inr (map2 (\<lambda>x y. x / y) xs ys)"
  by (simp add: np_divide_def)

text \<open>
  The errors of a closest-face lookup, and of \<^verbatim>\<open>DownHoleCasingSrc.s_e\<close> on a new instance.
\<close>

lemma closest_Fz_errors:
  "closest_Fz m p = Inl e \<Longrightarrow>
   e = IndexError \<or> e = AssertionError ''multiple source locs found''"
  by (auto simp: closest_Fz_def Let_def split: if_splits list.splits)

lemma DHC_s_e_fresh_ok:
  assumes "closest_Fz m (src_a c) = Inr a" and "closest_Fz m (src_b c) = Inr b"
    and "length (area m) = nF m"
  shows "\<exists>vec. fst (DHC_s_e (new_inst c m ph)) = Inr vec"
  using assms by (simp add: fresh_defs nF_def)

lemma DHC_s_e_fresh_errors:
  assumes "fst (DHC_s_e (new_inst c m ph)) = Inl e"
  shows "e = IndexError \<or> e = ValueError \<or> e = AssertionError ''multiple source locs found''"
proof (cases "closest_Fz m (src_a c)")
  case (Inl e1)
  with assms closest_Fz_errors [OF Inl] show ?thesis by (auto simp: fresh_defs)
next
  case a: (Inr a)
  show ?thesis
  proof (cases "closest_Fz m (src_b c)")
    case (Inl e2)
    with assms a closest_Fz_errors [OF Inl] show ?thesis by (auto simp: fresh_defs)
  next
    case (Inr b)
    with assms a show ?thesis by (simp add: fresh_defs split: if_splits)
  qed
qed

lemma within_half:
  fixes x a h :: real
  shows "(\<bar>x - a\<bar> < h / 2) = (x < a + h / 2 \<and> x > a - h / 2)"
  by (auto simp only: abs_less_iff; linarith)

section \<open>Signs of the segments\<close>

text \<open>
  Claim C1, as amended. The values written by the segments of a source sum to zero for
  \<^verbatim>\<open>DownHoleCasingSrc\<close> only, where they are \<open>(-1) + 1 + (-1) + 1\<close>. The sum is \<open>-1\<close> for
  \<^verbatim>\<open>VerticalElectricDipole\<close> and \<^verbatim>\<open>TopCasingSrc\<close>, and the direction of the surface wire
  (\<open>-1\<close> or \<open>1\<close>) for \<^verbatim>\<open>HorizontalElectricDipole\<close> and \<^verbatim>\<open>DownHoleTerminatingSrc\<close>.
\<close>

theorem unit_current_sum_values:
  "unit_current_sum k c =
     (case k of
        HorizontalElectricDipole \<Rightarrow> HED_surface_wire_direction c
      | VerticalElectricDipole \<Rightarrow> - 1
      | DownHoleTerminatingSrc \<Rightarrow> DHT_surface_wire_direction c
      | DownHoleCasingSrc \<Rightarrow> 0
      | TopCasingSrc \<Rightarrow> - 1) \<and>
   (unit_current_sum k c = 0) = (k = DownHoleCasingSrc)"
  by (cases k)
     (simp_all add: unit_current_sum_def seg_defs HED_surface_wire_direction_def
        DHT_surface_wire_direction_def)

text \<open>
  The sum is not zero for every source: the one segment of a vertical dipole writes \<open>-1\<close>.
\<close>

theorem unit_current_sum_counterexample:
  "unit_current_sum VerticalElectricDipole vertical_cp \<noteq> 0"
  by (simp add: unit_current_sum_def seg_defs)

section \<open>Support and normalisation of the current density\<close>

text \<open>
  The entries of a vector that \<^verbatim>\<open>s_e\<close> returns on a new instance.
\<close>

lemma s_e_fresh_entries:
  assumes run: "s_e k (new_inst c m ph) = (Inr vec, s')"
    and area_len: "length (area m) = nF m"
    and area_nz: "list_all (\<lambda>a. a \<noteq> 0) (area m)"
  shows "\<exists>rs. fst (resolve_segments (segments_of k c) (new_inst c m ph)) = Inr rs \<and>
              length vec = nF m \<and>
              (\<forall>i<nF m. vec ! i =
                 (case locate m i of (ax, j) \<Rightarrow>
                    (case last_write rs ax j of None \<Rightarrow> 0 | Some sg \<Rightarrow> sg / area m ! i)))"
proof -
  let ?z = "(replicate (length (gridFx m)) (0::real), replicate (length (gridFy m)) (0::real),
             replicate (length (gridFz m)) (0::real))"
  from s_e_fresh_run [OF run] obtain s_x s_y s_z s2 where
    rs: "run_segments ?z (segments_of k c) (new_inst c m ph) = (Inr (s_x, s_y, s_z), s2)"
    and dv: "np_divide (s_x @ s_y @ s_z) (area (mesh s2)) = Inr vec"
    by blast
  have ms: "mesh s2 = m"
    using variant_run_mesh [OF rs] by (simp add: new_inst_def)
  from run_segments_resolve [OF rs] obtain rsv where
    res: "resolve_segments (segments_of k c) (new_inst c m ph) = (Inr rsv, s2)"
    and wa: "write_all ?z rsv = Inr (s_x, s_y, s_z)"
    by blast
  have fx: "length s_x = length (gridFx m)"
       "\<forall>j<length (gridFx m). s_x ! j = (case last_write rsv Fx j of None \<Rightarrow> 0 | Some w \<Rightarrow> w)"
    using write_all_nth [OF wa, of Fx] by (auto split: option.splits)
  have fy: "length s_y = length (gridFy m)"
       "\<forall>j<length (gridFy m). s_y ! j = (case last_write rsv Fy j of None \<Rightarrow> 0 | Some w \<Rightarrow> w)"
    using write_all_nth [OF wa, of Fy] by (auto split: option.splits)
  have fz: "length s_z = length (gridFz m)"
       "\<forall>j<length (gridFz m). s_z ! j = (case last_write rsv Fz j of None \<Rightarrow> 0 | Some w \<Rightarrow> w)"
    using write_all_nth [OF wa, of Fz] by (auto split: option.splits)
  have len: "length (s_x @ s_y @ s_z) = length (area m)"
    using fx(1) fy(1) fz(1) area_len by (simp add: nF_def)
  have vec: "vec = map2 (\<lambda>x y. x / y) (s_x @ s_y @ s_z) (area m)"
    using dv ms np_divide_same_length [OF len] by simp
  have lv: "length vec = nF m"
    using vec len area_len by simp
  have nth: "vec ! i = (case locate m i of (ax, j) \<Rightarrow>
                    (case last_write rsv ax j of None \<Rightarrow> 0 | Some sg \<Rightarrow> sg / area m ! i))"
    if i: "i < nF m" for i
  proof -
    have vi: "vec ! i = (s_x @ s_y @ s_z) ! i / area m ! i"
      using vec i len area_len by simp
    consider (x) "i < length (gridFx m)"
      | (y) "length (gridFx m) \<le> i" "i < length (gridFx m) + length (gridFy m)"
      | (z) "length (gridFx m) + length (gridFy m) \<le> i"
      by linarith
    then show ?thesis
    proof cases
      case x
      then have "(s_x @ s_y @ s_z) ! i = s_x ! i" using fx(1) by (simp add: nth_append)
      with x fx(2) vi show ?thesis by (auto simp: locate_def split: option.splits)
    next
      case y
      have lt: "i - length (gridFx m) < length (gridFy m)" using y by linarith
      then have "(s_x @ s_y @ s_z) ! i = s_y ! (i - length (gridFx m))"
        using y fx(1) fy(1) by (simp add: nth_append)
      with lt show ?thesis using y fy(2) vi by (auto simp: locate_def split: option.splits)
    next
      case z
      have ge: "\<not> i < length (gridFx m)" "\<not> i - length (gridFx m) < length (gridFy m)"
        using z by linarith+
      then have "(s_x @ s_y @ s_z) ! i = s_z ! (i - length (gridFx m) - length (gridFy m))"
        using fx(1) fy(1) by (simp add: nth_append)
      moreover have "i - length (gridFx m) - length (gridFy m) < length (gridFz m)"
        using z i by (simp add: nF_def)
      ultimately show ?thesis using z fz(2) vi by (auto simp: locate_def split: option.splits)
    qed
  qed
  show ?thesis
    using res lv nth by auto
qed

text \<open>
  On a new instance \<^verbatim>\<open>s_e\<close> returns a vector exactly when the closest-face lookups of
  its segments resolve.
\<close>

lemma s_e_fresh_returns:
  assumes "length (area m) = nF m"
  shows "(\<exists>vec. fst (s_e k (new_inst c m ph)) = Inr vec) = lookups_resolve k m c"
  using assms
  by (cases k; cases "closest_Fz m (src_a c)"; cases "closest_Fz m (src_b c)")
     (simp_all add: fresh_defs nF_def resolves_def)

text \<open>
  Claim C2. On a mesh whose \<^verbatim>\<open>area\<close> has one nonzero entry per face, \<^verbatim>\<open>s_e\<close> of each of
  the five sources, called on a new instance, returns a vector exactly when the
  closest-face lookups of its segments resolve. The vector it returns has
  \<open>|Fx| + |Fy| + |Fz|\<close> entries in the order x, y, z; an entry that no mask of its face
  array selects is zero, and an entry that some mask selects is the value of the last
  segment selecting it, divided by the face area at that index.
\<close>

theorem s_e_support_and_normalization:
  assumes area_len: "length (area m) = nF m"
    and area_nz: "list_all (\<lambda>a. a \<noteq> 0) (area m)"
  shows "(\<exists>vec. fst (s_e k (new_inst c m ph)) = Inr vec) = lookups_resolve k m c \<and>
         (\<forall>vec. fst (s_e k (new_inst c m ph)) = Inr vec \<longrightarrow>
            (\<exists>rs. fst (resolve_segments (segments_of k c) (new_inst c m ph)) = Inr rs \<and>
                  length vec = nF m \<and>
                  (\<forall>i<nF m. vec ! i =
                     (case locate m i of (ax, j) \<Rightarrow>
                        (case last_write rs ax j of
                           None \<Rightarrow> 0
                         | Some sg \<Rightarrow> sg / area m ! i)))))"
proof (intro conjI allI impI)
  show "(\<exists>vec. fst (s_e k (new_inst c m ph)) = Inr vec) = lookups_resolve k m c"
    by (rule s_e_fresh_returns [OF area_len])
next
  fix vec
  assume "fst (s_e k (new_inst c m ph)) = Inr vec"
  then have "s_e k (new_inst c m ph) = (Inr vec, snd (s_e k (new_inst c m ph)))"
    by (metis prod.collapse)
  then show "\<exists>rs. fst (resolve_segments (segments_of k c) (new_inst c m ph)) = Inr rs \<and>
                  length vec = nF m \<and>
                  (\<forall>i<nF m. vec ! i =
                     (case locate m i of (ax, j) \<Rightarrow>
                        (case last_write rs ax j of
                           None \<Rightarrow> 0
                         | Some sg \<Rightarrow> sg / area m ! i)))"
    using s_e_fresh_entries [OF _ area_len area_nz] by blast
qed

text \<open>
  A \<^verbatim>\<open>DownHoleTerminatingSrc\<close> whose electrodes share the closest x: entry \<open>1\<close> is an
  x-face no mask selects, entry \<open>2\<close> a z-face of the borehole wire only, entry \<open>3\<close> a
  z-face that the borehole wire and then the surface electrode select.
\<close>

lemma stack_DHT_s_e:
  "fst (s_e DownHoleTerminatingSrc (new_inst stack_cp stack_mesh TDEM)) =
     Inr [1 / 2, 0, - 1 / 4, 1 / 4, 1 / 4, 1 / 4, 0]"
  by (simp add: fresh_defs ex_defs mask_defs DHT_surface_wire_direction_def)

lemma stack_DHT_resolved:
  "fst (resolve_segments (segments_of DownHoleTerminatingSrc stack_cp)
         (new_inst stack_cp stack_mesh TDEM)) =
     Inr [(Fz, [True, True, True, True, False], - 1),
          (Fx, [True, False], 1),
          (Fz, [False, True, True, True, False], 1)]"
  by (simp add: fresh_defs ex_defs mask_defs DHT_surface_wire_direction_def)

theorem s_e_support_and_normalization_witness:
  "length (area stack_mesh) = nF stack_mesh \<and> list_all (\<lambda>a. a \<noteq> 0) (area stack_mesh) \<and>
   lookups_resolve DownHoleTerminatingSrc stack_mesh stack_cp \<and>
   fst (s_e DownHoleTerminatingSrc (new_inst stack_cp stack_mesh TDEM)) =
     Inr [1 / 2, 0, - 1 / 4, 1 / 4, 1 / 4, 1 / 4, 0] \<and>
   fst (resolve_segments (segments_of DownHoleTerminatingSrc stack_cp)
         (new_inst stack_cp stack_mesh TDEM)) =
     Inr [(Fz, [True, True, True, True, False], - 1),
          (Fx, [True, False], 1),
          (Fz, [False, True, True, True, False], 1)] \<and>
   locate stack_mesh 1 = (Fx, 1) \<and>
   last_write [(Fz, [True, True, True, True, False], - 1), (Fx, [True, False], 1),
               (Fz, [False, True, True, True, False], 1)] Fx 1 = None \<and>
   [1 / 2, 0, - 1 / 4, 1 / 4, 1 / 4, 1 / 4, 0 :: real] ! 1 = 0 \<and>
   locate stack_mesh 2 = (Fz, 0) \<and>
   last_write [(Fz, [True, True, True, True, False], - 1), (Fx, [True, False], 1),
               (Fz, [False, True, True, True, False], 1)] Fz 0 = Some (- 1) \<and>
   [1 / 2, 0, - 1 / 4, 1 / 4, 1 / 4, 1 / 4, 0 :: real] ! 2 = - 1 / area stack_mesh ! 2 \<and>
   locate stack_mesh 3 = (Fz, 1) \<and>
   last_write [(Fz, [True, True, True, True, False], - 1), (Fx, [True, False], 1),
               (Fz, [False, True, True, True, False], 1)] Fz 1 = Some 1 \<and>
   [1 / 2, 0, - 1 / 4, 1 / 4, 1 / 4, 1 / 4, 0 :: real] ! 3 = 1 / area stack_mesh ! 3"
proof -
  let ?vec = "[1 / 2, 0, - 1 / 4, 1 / 4, 1 / 4, 1 / 4, 0 :: real]"
  let ?rs = "[(Fz, [True, True, True, True, False], - 1 :: real), (Fx, [True, False], 1),
              (Fz, [False, True, True, True, False], 1)]"
  have a: "length (area stack_mesh) = nF stack_mesh"
    by (simp add: stack_mesh_def stack_gridFz_def nF_def)
  have b: "list_all (\<lambda>a. a \<noteq> 0) (area stack_mesh)"
    by (simp add: stack_mesh_def)
  note spec_at = s_e_support_and_normalization [OF a b, of DownHoleTerminatingSrc stack_cp TDEM]
  from spec_at stack_DHT_s_e have lk: "lookups_resolve DownHoleTerminatingSrc stack_mesh stack_cp"
    by blast
  from spec_at stack_DHT_s_e stack_DHT_resolved
  have all: "\<forall>i<nF stack_mesh. ?vec ! i =
          (case locate stack_mesh i of (ax, j) \<Rightarrow>
             (case last_write ?rs ax j of None \<Rightarrow> 0 | Some sg \<Rightarrow> sg / area stack_mesh ! i))"
    by auto
  have nf: "1 < nF stack_mesh" "2 < nF stack_mesh" "3 < nF stack_mesh"
    by (simp_all add: nF_def stack_mesh_def stack_gridFz_def)
  have l: "locate stack_mesh 1 = (Fx, 1)" "locate stack_mesh 2 = (Fz, 0)"
          "locate stack_mesh 3 = (Fz, 1)"
    by (simp_all add: locate_def stack_mesh_def)
  have w: "last_write ?rs Fx 1 = None" "last_write ?rs Fz 0 = Some (- 1)"
          "last_write ?rs Fz 1 = Some 1"
    by simp_all
  from all nf(1) have "?vec ! 1 =
          (case locate stack_mesh 1 of (ax, j) \<Rightarrow>
             (case last_write ?rs ax j of None \<Rightarrow> 0 | Some sg \<Rightarrow> sg / area stack_mesh ! 1))"
    by blast
  then have v1: "?vec ! 1 = 0" unfolding l w by simp
  from all nf(2) have "?vec ! 2 =
          (case locate stack_mesh 2 of (ax, j) \<Rightarrow>
             (case last_write ?rs ax j of None \<Rightarrow> 0 | Some sg \<Rightarrow> sg / area stack_mesh ! 2))"
    by blast
  then have v2: "?vec ! 2 = - 1 / area stack_mesh ! 2" unfolding l w by simp
  from all nf(3) have "?vec ! 3 =
          (case locate stack_mesh 3 of (ax, j) \<Rightarrow>
             (case last_write ?rs ax j of None \<Rightarrow> 0 | Some sg \<Rightarrow> sg / area stack_mesh ! 3))"
    by blast
  then have v3: "?vec ! 3 = 1 / area stack_mesh ! 3" unfolding l w by simp
  show ?thesis
    by (intro conjI) (rule a b lk stack_DHT_s_e stack_DHT_resolved l w v1 v2 v3)+
qed

section \<open>Validation of the downhole electrode\<close>

text \<open>
  Claim C3, as amended. When the faces selected by the downhole-electrode mask of a
  \<^verbatim>\<open>DownHoleCasingSrc\<close> have more than one y-coordinate, the validator
  \<^verbatim>\<open>_check_wire_more\<close> fails with the assertion
  \<^verbatim>\<open>'the downhole electrode has more than one y-location'\<close>. Computing \<^verbatim>\<open>s_e\<close> runs no such
  check: it never fails with that assertion, and it returns a vector whenever both
  closest-face lookups succeed and \<^verbatim>\<open>mesh.area\<close> has one entry per face.
\<close>

theorem DHC_validation_is_separate:
  assumes "1 < n_unique (map py (map snd (filter fst
              (zip (DHC_downhole_electrode_mask m c) (gridFx m)))))"
  shows "fst (DHC_check_wire_more (new_inst c m ph)) =
           Inl (AssertionError ''the downhole electrode has more than one y-location'') \<and>
         fst (DHC_s_e (new_inst c m ph)) \<noteq>
           Inl (AssertionError ''the downhole electrode has more than one y-location'') \<and>
         (closest_Fz m (src_a c) = Inr a \<and> closest_Fz m (src_b c) = Inr b \<and>
          length (area m) = nF m \<longrightarrow>
            (\<exists>vec. fst (DHC_s_e (new_inst c m ph)) = Inr vec))"
proof (intro conjI impI)
  show "fst (DHC_check_wire_more (new_inst c m ph)) =
           Inl (AssertionError ''the downhole electrode has more than one y-location'')"
    using assms
    by (simp add: DHC_check_wire_more_def DHC_downhole_electrode_def and_then_def memo_def
        new_inst_def select_rows_def)
  show "fst (DHC_s_e (new_inst c m ph)) \<noteq>
           Inl (AssertionError ''the downhole electrode has more than one y-location'')"
    using DHC_s_e_fresh_errors [of c m ph] by auto
  show "\<exists>vec. fst (DHC_s_e (new_inst c m ph)) = Inr vec"
    if "closest_Fz m (src_a c) = Inr a \<and> closest_Fz m (src_b c) = Inr b \<and> length (area m) = nF m"
    using that DHC_s_e_fresh_ok by blast
qed

theorem DHC_validation_is_separate_witness:
  "1 < n_unique (map py (map snd (filter fst
              (zip (DHC_downhole_electrode_mask box_mesh box_cp) (gridFx box_mesh))))) \<and>
   closest_Fz box_mesh (src_a box_cp) = Inr (0, 0, - 10) \<and>
   closest_Fz box_mesh (src_b box_cp) = Inr (5, 0, 0) \<and>
   length (area box_mesh) = nF box_mesh \<and>
   fst (DHC_check_wire_more (new_inst box_cp box_mesh FDEM)) =
     Inl (AssertionError ''the downhole electrode has more than one y-location'') \<and>
   fst (DHC_s_e (new_inst box_cp box_mesh FDEM)) \<noteq>
     Inl (AssertionError ''the downhole electrode has more than one y-location'') \<and>
   (\<exists>vec. fst (DHC_s_e (new_inst box_cp box_mesh FDEM)) = Inr vec)"
proof -
  have h: "1 < n_unique (map py (map snd (filter fst
              (zip (DHC_downhole_electrode_mask box_mesh box_cp) (gridFx box_mesh)))))"
    by (simp add: ex_defs mask_defs n_unique_def)
  have a: "closest_Fz box_mesh (src_a box_cp) = Inr (0, 0, - 10)"
    by (simp add: ex_defs)
  have b: "closest_Fz box_mesh (src_b box_cp) = Inr (5, 0, 0)"
    by (simp add: ex_defs)
  have l: "length (area box_mesh) = nF box_mesh"
    by (simp add: box_mesh_def box_gridFz_def nF_def)
  from DHC_validation_is_separate [OF h, of FDEM "(0, 0, - 10)" "(5, 0, 0)"] a b l
  show ?thesis using h by blast
qed

text \<open>
  On the example the mask selects two faces with the y-coordinates \<open>-1/4\<close> and
  \<open>1/4\<close>, and \<^verbatim>\<open>s_e\<close> returns a vector.
\<close>

theorem DHC_s_e_validation_counterexample:
  "map snd (filter fst (zip (DHC_downhole_electrode_mask box_mesh box_cp) (gridFx box_mesh))) =
     [(1 / 2, - (1 / 4), - 10), (1 / 2, 1 / 4, - 10)] \<and>
   n_unique (map py [(1 / 2, - (1 / 4), - 10), (1 / 2, 1 / 4, - 10)]) = 2 \<and>
   fst (DHC_s_e (new_inst box_cp box_mesh FDEM)) =
     Inr [1, 1, - 1 / 2, - 1 / 2, - 1 / 3, - 1 / 3, - 1 / 3, 1 / 4, 1 / 4]"
  by (simp add: fresh_defs ex_defs mask_defs n_unique_def)

section \<open>Construction of a vertical dipole\<close>

text \<open>
  Claim C4. The endpoints \<open>(0, 0, 0)\<close> and \<open>(0, 0, -10)\<close> have equal horizontal coordinates,
  and still the constructor of \<^verbatim>\<open>VerticalElectricDipole\<close> returns no instance: it raises
  \<^verbatim>\<open>NameError\<close>.
\<close>

theorem VerticalElectricDipole_init_fails:
  "VerticalElectricDipole_init vertical_cp m ph = Inl (NameError ''cp'') \<and>
   py (src_a vertical_cp) = py (src_b vertical_cp) \<and> px (src_a vertical_cp) = px (src_b vertical_cp)"
  by (simp add: VerticalElectricDipole_init_def vertical_cp_def)

section \<open>Sign of the horizontal dipole\<close>

text \<open>
  Claim C5. On a new \<^verbatim>\<open>HorizontalElectricDipole\<close>, the segment of \<^verbatim>\<open>s_e\<close> leaves in the
  x-face array \<open>-1\<close> at the entries of the surface wire when \<open>src_a.x < src_b.x\<close> and \<open>1\<close>
  at them otherwise, and zero elsewhere; the y- and z-face arrays stay zero. For
  \<open>src_a = (0, 0, 0)\<close> and \<open>src_b = (10, 0, 0)\<close> the sign is \<open>-1\<close>: on x-faces at
  \<open>x = 0, 5, 10\<close> and \<open>z = 0\<close> of unit area, \<^verbatim>\<open>s_e\<close> is \<open>-1\<close> on all three.
\<close>

theorem HED_assigned_sign:
  "fst (run_segments (replicate (length (gridFx m)) 0, replicate (length (gridFy m)) 0,
                      replicate (length (gridFz m)) 0) (HED_segments c) (new_inst c m ph)) =
     Inr (map (\<lambda>b. if b then (if px (src_a c) < px (src_b c) then - 1 else 1) else 0)
              (HED_surface_wire_mask m c),
          replicate (length (gridFy m)) 0, replicate (length (gridFz m)) 0) \<and>
   src_a line_cp = (0, 0, 0) \<and> src_b line_cp = (10, 0, 0) \<and>
   HED_surface_wire_direction line_cp = - 1 \<and>
   fst (HED_s_e (new_inst line_cp line_mesh TDEM)) = Inr [- 1, - 1, - 1, 0]"
proof -
  have "fst (HED_s_e (new_inst line_cp line_mesh TDEM)) = Inr [- 1, - 1, - 1, 0]"
    by (simp add: fresh_defs ex_defs mask_defs HED_surface_wire_direction_def)
  then show ?thesis
    by (simp add: HED_segments_def HED_surface_wire_def memo_def new_inst_def assign_masked_def
        HED_surface_wire_direction_def map2_map_map zip_replicate2 line_cp_def cong: map_cong)
qed

section \<open>The tophole electrode\<close>

text \<open>
  Claim C6. The tophole-electrode mask of a \<^verbatim>\<open>TopCasingSrc\<close> has one entry per z-face, and
  selects a face exactly when its x-coordinate lies in \<open>(casing_a, casing_a + hx_min]\<close>,
  its z-coordinate lies in \<open>[src_a.z - hz_min/2, src_a.z + 3 hz_min/2)\<close> and, on a mesh
  that is not symmetric, its y-coordinate lies within \<open>hy_min\<close> of \<open>src_a.y\<close>.
\<close>

theorem tophole_electrode_band:
  assumes "i < length (gridFz m)"
  shows "fst (TopCasing_tophole_electrode (new_inst c m ph)) =
           Inr (TopCasing_tophole_electrode_mask m c) \<and>
         length (TopCasing_tophole_electrode_mask m c) = length (gridFz m) \<and>
         TopCasing_tophole_electrode_mask m c ! i =
           ((casing_a c < px (gridFz m ! i) \<and> px (gridFz m ! i) \<le> casing_a c + hx_min m) \<and>
            (pz (src_a c) - hz_min m / 2 \<le> pz (gridFz m ! i) \<and>
             pz (gridFz m ! i) < pz (src_a c) + 3 * hz_min m / 2) \<and>
            (isSymmetric m \<or>
             (py (src_a c) - hy_min m < py (gridFz m ! i) \<and>
              py (gridFz m ! i) < py (src_a c) + hy_min m)))"
  using assms
  by (auto simp: TopCasing_tophole_electrode_def memo_def new_inst_def
      TopCasing_tophole_electrode_mask_def Let_def)

text \<open>
  With \<open>casing_a = 1/2\<close> and \<open>hx_min = 1/5\<close>, of the faces at
  \<open>x = 1/10, 3/10, 1/2, 7/10, 9/10\<close> the one at \<open>7/10\<close> is selected.
\<close>

theorem tophole_electrode_band_witness:
  "3 < length (gridFz cyl_mesh) \<and> casing_a cyl_cp = 1 / 2 \<and> hx_min cyl_mesh = 1 / 5 \<and>
   map px (gridFz cyl_mesh) = [1 / 10, 3 / 10, 1 / 2, 7 / 10, 9 / 10] \<and>
   fst (TopCasing_tophole_electrode (new_inst cyl_cp cyl_mesh TDEM)) =
     Inr [False, False, False, True, False] \<and>
   TopCasing_tophole_electrode_mask cyl_mesh cyl_cp ! 3 =
     ((casing_a cyl_cp < px (gridFz cyl_mesh ! 3) \<and>
       px (gridFz cyl_mesh ! 3) \<le> casing_a cyl_cp + hx_min cyl_mesh) \<and>
      (pz (src_a cyl_cp) - hz_min cyl_mesh / 2 \<le> pz (gridFz cyl_mesh ! 3) \<and>
       pz (gridFz cyl_mesh ! 3) < pz (src_a cyl_cp) + 3 * hz_min cyl_mesh / 2) \<and>
      (isSymmetric cyl_mesh \<or>
       (py (src_a cyl_cp) - hy_min cyl_mesh < py (gridFz cyl_mesh ! 3) \<and>
        py (gridFz cyl_mesh ! 3) < py (src_a cyl_cp) + hy_min cyl_mesh)))"
proof -
  have h: "3 < length (gridFz cyl_mesh)" by (simp add: cyl_mesh_def cyl_gridFz_def)
  have e: "TopCasing_tophole_electrode_mask cyl_mesh cyl_cp = [False, False, False, True, False]"
    by (simp add: ex_defs mask_defs)
  from tophole_electrode_band [OF h, of cyl_cp TDEM] e h
  show ?thesis by (simp add: cyl_mesh_def cyl_gridFz_def cyl_cp_def)
qed

section \<open>The wire in the borehole\<close>

text \<open>
  Claim C7. When the closest z-face to \<open>src_a\<close> resolves to \<open>a\<close>, the wire-in-borehole
  masks of \<^verbatim>\<open>VerticalElectricDipole\<close> and \<^verbatim>\<open>DownHoleTerminatingSrc\<close> are the same mask over
  the z-faces; it selects a face exactly when its z-coordinate lies in
  \<open>[src_a.z - hz_min/2, src_b.z + 3 hz_min/2)\<close>, its x-coordinate lies strictly within
  \<open>hx_min/2\<close> of the x-coordinate of \<open>a\<close> and, on a mesh that is not symmetric, its
  y-coordinate lies strictly within \<open>hy_min/2\<close> of \<open>src_a.y\<close>.
\<close>

theorem wire_in_borehole_band:
  assumes "closest_Fz m (src_a c) = Inr a" and "i < length (gridFz m)"
  shows "fst (VED_wire_in_borehole (new_inst c m ph)) = Inr (VED_wire_in_borehole_mask m c a) \<and>
         fst (DHT_wire_in_borehole (new_inst c m ph)) = Inr (DHT_wire_in_borehole_mask m c a) \<and>
         VED_wire_in_borehole_mask m c a = DHT_wire_in_borehole_mask m c a \<and>
         length (DHT_wire_in_borehole_mask m c a) = length (gridFz m) \<and>
         DHT_wire_in_borehole_mask m c a ! i =
           ((pz (src_a c) - hz_min m / 2 \<le> pz (gridFz m ! i) \<and>
             pz (gridFz m ! i) < pz (src_b c) + 3 * hz_min m / 2) \<and>
            \<bar>px (gridFz m ! i) - px a\<bar> < hx_min m / 2 \<and>
            (isSymmetric m \<or> \<bar>py (gridFz m ! i) - py (src_a c)\<bar> < hy_min m / 2))"
proof -
  have props: "fst (VED_wire_in_borehole (new_inst c m ph)) = Inr (VED_wire_in_borehole_mask m c a)"
    "fst (DHT_wire_in_borehole (new_inst c m ph)) = Inr (DHT_wire_in_borehole_mask m c a)"
    using assms(1)
    by (simp_all add: VED_wire_in_borehole_def DHT_wire_in_borehole_def VED_src_a_closest_def
        DHT_src_a_closest_def and_then_def memo_def new_inst_def)
  have same: "VED_wire_in_borehole_mask m c a = DHT_wire_in_borehole_mask m c a"
    by (simp add: VED_wire_in_borehole_mask_def DHT_wire_in_borehole_mask_def)
  have nth: "DHT_wire_in_borehole_mask m c a ! i =
           ((pz (src_a c) - hz_min m / 2 \<le> pz (gridFz m ! i) \<and>
             pz (gridFz m ! i) < pz (src_b c) + 3 * hz_min m / 2) \<and>
            \<bar>px (gridFz m ! i) - px a\<bar> < hx_min m / 2 \<and>
            (isSymmetric m \<or> \<bar>py (gridFz m ! i) - py (src_a c)\<bar> < hy_min m / 2))"
    using assms(2)
    unfolding within_half
    by (auto simp: DHT_wire_in_borehole_mask_def Let_def)
  show ?thesis
    using props same nth by simp
qed

theorem wire_in_borehole_band_witness:
  "closest_Fz box_mesh (src_a box_cp) = Inr (0, 0, - 10) \<and> 1 < length (gridFz box_mesh) \<and>
   fst (VED_wire_in_borehole (new_inst box_cp box_mesh FDEM)) = Inr [True, True, True, False, False] \<and>
   fst (DHT_wire_in_borehole (new_inst box_cp box_mesh FDEM)) = Inr [True, True, True, False, False] \<and>
   DHT_wire_in_borehole_mask box_mesh box_cp (0, 0, - 10) ! 1 =
     ((pz (src_a box_cp) - hz_min box_mesh / 2 \<le> pz (gridFz box_mesh ! 1) \<and>
       pz (gridFz box_mesh ! 1) < pz (src_b box_cp) + 3 * hz_min box_mesh / 2) \<and>
      \<bar>px (gridFz box_mesh ! 1) - px (0, 0, - 10)\<bar> < hx_min box_mesh / 2 \<and>
      (isSymmetric box_mesh \<or> \<bar>py (gridFz box_mesh ! 1) - py (src_a box_cp)\<bar> < hy_min box_mesh / 2))"
proof -
  have a: "closest_Fz box_mesh (src_a box_cp) = Inr (0, 0, - 10)"
    by (simp add: ex_defs)
  have h: "1 < length (gridFz box_mesh)"
    by (simp add: box_mesh_def box_gridFz_def)
  have e: "DHT_wire_in_borehole_mask box_mesh box_cp (0, 0, - 10) = [True, True, True, False, False]"
    by (simp add: ex_defs mask_defs)
  from wire_in_borehole_band [OF a h, of FDEM] e a h
  show ?thesis by simp
qed

section \<open>Repeated calls of \<^verbatim>\<open>s_e\<close>\<close>

text \<open>
  A second call of each \<^verbatim>\<open>s_e\<close>, by cases on the attributes that are set and on the
  outcome of the closest-face lookups.
\<close>

lemmas any_defs = and_then_def memo_def ret_def return_s_e_def compute_s_e_def vnF_def
  assign_masked_def np_divide_def prop_defs seg_defs s_e_defs

lemma src_a_cases [case_names cached fails found]:
  obtains v where "cache_src_a_closest s = Some v"
  | e where "cache_src_a_closest s = None" "closest_Fz (mesh s) (src_a (cp s)) = Inl e"
  | p where "cache_src_a_closest s = None" "closest_Fz (mesh s) (src_a (cp s)) = Inr p"
  by (cases "cache_src_a_closest s"; cases "closest_Fz (mesh s) (src_a (cp s))") auto

lemma src_b_cases [case_names cached fails found]:
  obtains v where "cache_src_b_closest s = Some v"
  | e where "cache_src_b_closest s = None" "closest_Fz (mesh s) (src_b (cp s)) = Inl e"
  | p where "cache_src_b_closest s = None" "closest_Fz (mesh s) (src_b (cp s)) = Inr p"
  by (cases "cache_src_b_closest s"; cases "closest_Fz (mesh s) (src_b (cp s))") auto

lemma HED_s_e_again: "HED_s_e (snd (HED_s_e s)) = HED_s_e s"
  by (cases "cache_s_e s"; cases "cache_surface_wire s") (simp_all add: any_defs)

lemma VED_s_e_again: "VED_s_e (snd (VED_s_e s)) = VED_s_e s"
  by (cases "cache_s_e s"; cases "cache_wire_in_borehole s"; cases s rule: src_a_cases)
     (simp_all add: any_defs)

lemma DHT_s_e_again: "DHT_s_e (snd (DHT_s_e s)) = DHT_s_e s"
proof (cases "cache_srcList s")
  case None
  then show ?thesis
    by (cases "cache_wire_in_borehole s"; cases "cache_surface_wire s";
        cases "cache_surface_electrode s"; cases s rule: src_a_cases; cases s rule: src_b_cases)
       (simp_all add: any_defs)
next
  case (Some l)
  then show ?thesis
    by (cases "cache_s_e s") (simp_all add: DHT_s_e_def return_s_e_def)
qed

lemma DHC_s_e_again: "DHC_s_e (snd (DHC_s_e s)) = DHC_s_e s"
proof (cases "cache_srcList s")
  case None
  then show ?thesis
    by (cases "cache_wire_in_borehole s"; cases "cache_downhole_electrode s";
        cases "cache_surface_wire s"; cases "cache_surface_electrode s";
        cases s rule: src_a_cases; cases s rule: src_b_cases)
       (simp_all add: any_defs)
next
  case (Some l)
  then show ?thesis
    by (cases "cache_s_e s") (simp_all add: DHC_s_e_def return_s_e_def)
qed

lemma TopCasing_s_e_again: "TopCasing_s_e (snd (TopCasing_s_e s)) = TopCasing_s_e s"
proof (cases "cache_srcList s")
  case None
  then show ?thesis
    by (cases "cache_tophole_electrode s"; cases "cache_surface_wire s";
        cases "cache_surface_electrode s"; cases s rule: src_b_cases)
       (simp_all add: any_defs)
next
  case (Some l)
  then show ?thesis
    by (cases "cache_s_e s") (simp_all add: TopCasing_s_e_def return_s_e_def)
qed

lemma returned_s_e_is_stored:
  "(if g s then and_then p (\<lambda>_. return_s_e) s else return_s_e s) = (Inr vec, s') \<Longrightarrow>
   cache_s_e s' = Some vec"
  by (auto simp: and_then_def return_s_e_def split: if_splits prod.splits sum.splits option.splits)

lemma s_e_stored:
  assumes "s_e k s = (Inr vec, s')"
  shows "cache_s_e s' = Some vec"
proof (cases k)
  case HorizontalElectricDipole
  with assms show ?thesis
    by (intro returned_s_e_is_stored [where g = "\<lambda>s. cache_s_e s = None"
          and p = "compute_s_e (HED_segments (cp s))" and s = s])
       (simp add: HED_s_e_def)
next
  case VerticalElectricDipole
  with assms show ?thesis
    by (intro returned_s_e_is_stored [where g = "\<lambda>s. cache_s_e s = None"
          and p = "compute_s_e (VED_segments (cp s))" and s = s])
       (simp add: VED_s_e_def)
next
  case DownHoleTerminatingSrc
  with assms show ?thesis
    by (intro returned_s_e_is_stored [where g = "\<lambda>s. cache_srcList s = None"
          and p = "compute_s_e (DHT_segments (cp s))" and s = s])
       (simp add: DHT_s_e_def)
next
  case DownHoleCasingSrc
  with assms show ?thesis
    by (intro returned_s_e_is_stored [where g = "\<lambda>s. cache_srcList s = None"
          and p = "compute_s_e (DHC_segments (cp s))" and s = s])
       (simp add: DHC_s_e_def)
next
  case TopCasingSrc
  with assms show ?thesis
    by (intro returned_s_e_is_stored [where g = "\<lambda>s. cache_srcList s = None"
          and p = "compute_s_e (TopCasing_segments (cp s))" and s = s])
       (simp add: TopCasing_s_e_def)
qed

text \<open>
  A second call returns the value of the first call and leaves the instance as the
  first call left it; a returned vector is the one stored in \<^verbatim>\<open>_s_e\<close>.
\<close>

lemma s_e_second_call:
  "s_e k (snd (s_e k s)) = s_e k s \<and>
   (\<forall>vec. fst (s_e k s) = Inr vec \<longrightarrow> cache_s_e (snd (s_e k s)) = Some vec)"
proof
  show "s_e k (snd (s_e k s)) = s_e k s"
    by (cases k)
       (simp_all add: HED_s_e_again VED_s_e_again DHT_s_e_again DHC_s_e_again TopCasing_s_e_again)
  show "\<forall>vec. fst (s_e k s) = Inr vec \<longrightarrow> cache_s_e (snd (s_e k s)) = Some vec"
  proof (intro allI impI)
    fix vec
    assume "fst (s_e k s) = Inr vec"
    then have "s_e k s = (Inr vec, snd (s_e k s))"
      by (metis prod.collapse)
    then show "cache_s_e (snd (s_e k s)) = Some vec"
      by (rule s_e_stored)
  qed
qed

text \<open>
  The two dipoles return a stored \<^verbatim>\<open>_s_e\<close>; the other three sources, while
  \<^verbatim>\<open>_srcList\<close> is not set, compute without reading it.
\<close>

lemma HED_s_e_reads_stored: "fst (HED_s_e (s\<lparr>cache_s_e := Some v\<rparr>)) = Inr v"
  by (simp add: HED_s_e_def return_s_e_def)

lemma VED_s_e_reads_stored: "fst (VED_s_e (s\<lparr>cache_s_e := Some v\<rparr>)) = Inr v"
  by (simp add: VED_s_e_def return_s_e_def)

lemma DHT_s_e_ignores_stored:
  "fst (DHT_s_e (s\<lparr>cache_srcList := None, cache_s_e := x\<rparr>)) =
   fst (DHT_s_e (s\<lparr>cache_srcList := None, cache_s_e := None\<rparr>))"
  by (cases "cache_wire_in_borehole s"; cases "cache_surface_wire s";
      cases "cache_surface_electrode s"; cases s rule: src_a_cases; cases s rule: src_b_cases)
     (simp_all add: any_defs)

lemma DHC_s_e_ignores_stored:
  "fst (DHC_s_e (s\<lparr>cache_srcList := None, cache_s_e := x\<rparr>)) =
   fst (DHC_s_e (s\<lparr>cache_srcList := None, cache_s_e := None\<rparr>))"
  by (cases "cache_wire_in_borehole s"; cases "cache_downhole_electrode s";
      cases "cache_surface_wire s"; cases "cache_surface_electrode s";
      cases s rule: src_a_cases; cases s rule: src_b_cases)
     (simp_all add: any_defs)

lemma TopCasing_s_e_ignores_stored:
  "fst (TopCasing_s_e (s\<lparr>cache_srcList := None, cache_s_e := x\<rparr>)) =
   fst (TopCasing_s_e (s\<lparr>cache_srcList := None, cache_s_e := None\<rparr>))"
  by (cases "cache_tophole_electrode s"; cases "cache_surface_wire s";
      cases "cache_surface_electrode s"; cases s rule: src_b_cases)
     (simp_all add: any_defs)

text \<open>
  Claim C8. The claim says that \<^verbatim>\<open>s_e\<close> is cached after the first computation and that
  repeated calls return the cached vector. \<^verbatim>\<open>HorizontalElectricDipole\<close> and
  \<^verbatim>\<open>VerticalElectricDipole\<close> do so: they return whatever \<^verbatim>\<open>_s_e\<close> holds. The guard of
  \<^verbatim>\<open>DownHoleTerminatingSrc\<close>, \<^verbatim>\<open>DownHoleCasingSrc\<close> and \<^verbatim>\<open>TopCasingSrc\<close> tests
  \<^verbatim>\<open>_srcList\<close> instead: while it is not set, the result of \<^verbatim>\<open>s_e\<close> does not depend on
  what \<^verbatim>\<open>_s_e\<close> holds. After a first call of \<^verbatim>\<open>DownHoleCasingSrc.s_e\<close> on the example,
  \<^verbatim>\<open>_srcList\<close> is not set and \<^verbatim>\<open>_s_e\<close> holds the vector; with \<open>[42]\<close> put in \<^verbatim>\<open>_s_e\<close>, the
  next call returns the recomputed vector, where the horizontal dipole returns \<open>[42]\<close>.
\<close>

theorem s_e_stored_vector_not_reused:
  "fst (s_e HorizontalElectricDipole (s\<lparr>cache_s_e := Some v\<rparr>)) = Inr v \<and>
   fst (s_e VerticalElectricDipole (s\<lparr>cache_s_e := Some v\<rparr>)) = Inr v \<and>
   fst (s_e DownHoleTerminatingSrc (s\<lparr>cache_srcList := None, cache_s_e := x\<rparr>)) =
     fst (s_e DownHoleTerminatingSrc (s\<lparr>cache_srcList := None, cache_s_e := None\<rparr>)) \<and>
   fst (s_e DownHoleCasingSrc (s\<lparr>cache_srcList := None, cache_s_e := x\<rparr>)) =
     fst (s_e DownHoleCasingSrc (s\<lparr>cache_srcList := None, cache_s_e := None\<rparr>)) \<and>
   fst (s_e TopCasingSrc (s\<lparr>cache_srcList := None, cache_s_e := x\<rparr>)) =
     fst (s_e TopCasingSrc (s\<lparr>cache_srcList := None, cache_s_e := None\<rparr>)) \<and>
   cache_srcList (snd (s_e DownHoleCasingSrc (new_inst box_cp box_mesh FDEM))) = None \<and>
   cache_s_e (snd (s_e DownHoleCasingSrc (new_inst box_cp box_mesh FDEM))) =
     Some [1, 1, - 1 / 2, - 1 / 2, - 1 / 3, - 1 / 3, - 1 / 3, 1 / 4, 1 / 4] \<and>
   fst (s_e DownHoleCasingSrc
          ((snd (s_e DownHoleCasingSrc (new_inst box_cp box_mesh FDEM)))\<lparr>cache_s_e := Some [42]\<rparr>)) =
     Inr [1, 1, - 1 / 2, - 1 / 2, - 1 / 3, - 1 / 3, - 1 / 3, 1 / 4, 1 / 4] \<and>
   fst (s_e HorizontalElectricDipole
          ((snd (s_e HorizontalElectricDipole (new_inst line_cp line_mesh FDEM)))\<lparr>cache_s_e := Some [42]\<rparr>)) =
     Inr [42]"
proof -
  have box: "cache_srcList (snd (s_e DownHoleCasingSrc (new_inst box_cp box_mesh FDEM))) = None"
    "cache_s_e (snd (s_e DownHoleCasingSrc (new_inst box_cp box_mesh FDEM))) =
       Some [1, 1, - 1 / 2, - 1 / 2, - 1 / 3, - 1 / 3, - 1 / 3, 1 / 4, 1 / 4]"
    "fst (s_e DownHoleCasingSrc
          ((snd (s_e DownHoleCasingSrc (new_inst box_cp box_mesh FDEM)))\<lparr>cache_s_e := Some [42]\<rparr>)) =
     Inr [1, 1, - 1 / 2, - 1 / 2, - 1 / 3, - 1 / 3, - 1 / 3, 1 / 4, 1 / 4]"
    by (simp_all add: fresh_defs ex_defs mask_defs)
  show ?thesis
    using box
    by (simp add: HED_s_e_reads_stored VED_s_e_reads_stored DHT_s_e_ignores_stored [where x = x]
        DHC_s_e_ignores_stored [where x = x] TopCasing_s_e_ignores_stored [where x = x])
qed

section \<open>Direction of the surface wire\<close>




section \<open>The surface wire of the downhole sources\<close>

text \<open>
  Claim C10. The surface-wire mask of \<^verbatim>\<open>DownHoleTerminatingSrc\<close> selects an x-face exactly
  when its x-coordinate lies between those of the two closest faces, its z-coordinate
  lies in \<open>(hz_min, 7/4 hz_min]\<close> and, on a mesh that is not symmetric, its y-coordinate
  lies strictly within \<open>hy_min/2\<close> of \<open>src_b.y\<close>. The mask does not change when the
  z-coordinates of \<open>src_a\<close> and \<open>src_b\<close> change while the closest faces stay. It is the
  mask the property returns, and the one \<^verbatim>\<open>DownHoleCasingSrc\<close> uses.
\<close>

theorem DHT_surface_wire_z_band:
  assumes "i < length (gridFx m)"
  shows "DHT_surface_wire_mask m c a b ! i =
           ((min (px a) (px b) \<le> px (gridFx m ! i) \<and> px (gridFx m ! i) \<le> max (px a) (px b)) \<and>
            (hz_min m < pz (gridFx m ! i) \<and> pz (gridFx m ! i) \<le> 7 / 4 * hz_min m) \<and>
            (isSymmetric m \<or>
             (py (src_b c) - hy_min m / 2 < py (gridFx m ! i) \<and>
              py (gridFx m ! i) < py (src_b c) + hy_min m / 2))) \<and>
         DHT_surface_wire_mask m
            (c\<lparr>src_a := (px (src_a c), py (src_a c), z_a),
               src_b := (px (src_b c), py (src_b c), z_b)\<rparr>) a b =
           DHT_surface_wire_mask m c a b \<and>
         (closest_Fz m (src_a c) = Inr a \<and> closest_Fz m (src_b c) = Inr b \<longrightarrow>
            fst (DHT_surface_wire (new_inst c m ph)) = Inr (DHT_surface_wire_mask m c a b)) \<and>
         DHT_segments c ! 1 = (Fx, DHT_surface_wire, DHT_surface_wire_direction c) \<and>
         DHC_segments c ! 2 = (Fx, DHT_surface_wire, - 1)"
  using assms
  by (auto simp: DHT_surface_wire_mask_def Let_def DHT_surface_wire_def DHT_src_a_closest_def
      DHT_src_b_closest_def and_then_def memo_def new_inst_def seg_defs)

theorem DHT_surface_wire_z_band_witness:
  "2 < length (gridFx box_mesh) \<and>
   closest_Fz box_mesh (src_a box_cp) = Inr (0, 0, - 10) \<and>
   closest_Fz box_mesh (src_b box_cp) = Inr (5, 0, 0) \<and>
   pz (src_a box_cp) = - 10 \<and> pz (src_b box_cp) = 0 \<and>
   fst (DHT_surface_wire (new_inst box_cp box_mesh FDEM)) = Inr [False, False, True, True] \<and>
   map pz (gridFx box_mesh) = [- 10, - 10, 3 / 2, 3 / 2] \<and>
   DHT_surface_wire_mask box_mesh
      (box_cp\<lparr>src_a := (px (src_a box_cp), py (src_a box_cp), - 500),
              src_b := (px (src_b box_cp), py (src_b box_cp), 70)\<rparr>) (0, 0, - 10) (5, 0, 0) =
     [False, False, True, True]"
proof -
  have h: "2 < length (gridFx box_mesh)" by (simp add: box_mesh_def)
  have a: "closest_Fz box_mesh (src_a box_cp) = Inr (0, 0, - 10)"
    by (simp add: ex_defs)
  have b: "closest_Fz box_mesh (src_b box_cp) = Inr (5, 0, 0)"
    by (simp add: ex_defs)
  have e: "DHT_surface_wire_mask box_mesh box_cp (0, 0, - 10) (5, 0, 0) = [False, False, True, True]"
    by (simp add: ex_defs mask_defs)
  have g: "map pz (gridFx box_mesh) = [- 10, - 10, 3 / 2, 3 / 2]"
          "pz (src_a box_cp) = - 10" "pz (src_b box_cp) = 0"
    by (simp_all add: box_mesh_def box_cp_def)
  from DHT_surface_wire_z_band [OF h, where c = box_cp and a = "(0, 0, - 10)"
      and b = "(5, 0, 0)" and z_a = "- 500" and z_b = 70 and ph = FDEM] a b e h g
  show ?thesis by simp
qed

end
